theory Spec2Isabelle
  imports Main
begin

section \<open>Data model\<close>

text \<open>
  The library back end keeps four tables: books, members, borrowings and penalties.
  The ORM classes live in \<^verbatim>\<open>models.py\<close> and the request schemas in
  \<^verbatim>\<open>schemas.py\<close>; the routes and helpers that use them are in
  \<^verbatim>\<open>backend_routes.py\<close> and \<^verbatim>\<open>backend_utils.py\<close>.

  A \<^verbatim>\<open>date\<close> is its proleptic Gregorian ordinal (\<^verbatim>\<open>date.toordinal()\<close>), from 1
  for \<^verbatim>\<open>date.min\<close> to 3652059 for \<^verbatim>\<open>date.max\<close>, so that \<^verbatim>\<open>(a - b).days\<close> is
  \<open>a - b\<close>. Identities are natural numbers. Amounts of money are whole so'm.
\<close>

type_synonym date = int
type_synonym ident = nat

text \<open>
  The \<^verbatim>\<open>status\<close> column of a borrowing holds \<^verbatim>\<open>'borrowed'\<close>,
  \<^verbatim>\<open>'late'\<close> or \<^verbatim>\<open>'returned'\<close>; that of a penalty holds
  \<^verbatim>\<open>'unpaid'\<close>, \<^verbatim>\<open>'paid'\<close> or \<^verbatim>\<open>'waived'\<close>.
\<close>

datatype loan_status = Borrowed | Late | Returned

datatype penalty_status = Unpaid | Paid | Waived

text \<open>
  An f-string is kept as its pieces: the literal text and the interpolated numbers, in
  order. \<^verbatim>\<open>f"A'zoning {n} so'm ..."\<close> is \<open>[Lit ''A'zoning '', Val n, Lit '' so'm ...'']\<close>.
\<close>

datatype frag = Lit string | Val int

type_synonym detail = "frag list"

text \<open>
  \<^verbatim>\<open>HTTPException(status_code, detail)\<close> is what the routes raise. Reading an
  attribute of \<^verbatim>\<open>None\<close> raises \<^verbatim>\<open>AttributeError\<close>; a date or a float out of
  range raises \<^verbatim>\<open>OverflowError\<close>.
\<close>

datatype error = HTTPException nat detail | AttributeError | OverflowError

record Book =
  total_copies :: int
  available_copies :: int
  book_is_active :: bool

record Member =
  member_is_active :: bool
  current_borrowed :: int
  total_borrowed :: int

record Borrowing =
  borrow_id :: ident
  b_member_id :: ident
  b_book_id :: ident
  librarian_id :: ident
  borrow_date :: date
  due_date :: date
  return_date :: "date option"
  b_status :: loan_status
  b_notes :: "string option"

record Penalty =
  penalty_id :: ident
  p_member_id :: ident
  p_borrow_id :: "ident option"
  amount :: int
  reason :: detail
  p_status :: penalty_status
  issued_date :: date
  paid_date :: "date option"
  paid_amount :: "int option"
  p_notes :: "string option"

text \<open>
  The database. Books and members are only ever fetched by primary key, so they are maps
  from the key; borrowings and penalties are also counted and summed, so they are the
  lists of their rows, in insertion order.
\<close>

record db =
  books :: "ident \<rightharpoonup> Book"
  members :: "ident \<rightharpoonup> Member"
  borrowings :: "Borrowing list"
  penalties :: "Penalty list"

section \<open>Helpers: date utilities and penalty calculations\<close>

text \<open>
  \<^verbatim>\<open>d + timedelta(days=n)\<close>. The \<^verbatim>\<open>timedelta\<close> constructor raises
  \<^verbatim>\<open>OverflowError\<close> beyond 999999999 days either way, and the addition raises it when
  the sum is not the ordinal of a date.
\<close>

definition date_add_days :: "date \<Rightarrow> int \<Rightarrow> error + date" where
  "date_add_days d n =
     (if \<bar>n\<bar> > 999999999 then Inl OverflowError
      else if d + n < 1 \<or> d + n > 3652059 then Inl OverflowError
      else Inr (d + n))"


subsection \<open>Floats\<close>














section \<open>Python and ORM idioms\<close>

text \<open>
  \<^verbatim>\<open>a or b\<close> on an optional number: \<^verbatim>\<open>None\<close> and \<open>0\<close> are both falsy.
\<close>

definition py_or :: "int option \<Rightarrow> int \<Rightarrow> int" where
  "py_or a b = (case a of None \<Rightarrow> b | Some v \<Rightarrow> if v = 0 then b else v)"

text \<open>\<^verbatim>\<open>if notes:\<close> on an optional string: \<^verbatim>\<open>None\<close> and \<^verbatim>\<open>""\<close> are falsy.\<close>

definition truthy :: "string option \<Rightarrow> bool" where
  "truthy s = (case s of None \<Rightarrow> False | Some t \<Rightarrow> t \<noteq> [])"

text \<open>SQL \<^verbatim>\<open>SUM\<close> over the selected rows: \<^verbatim>\<open>NULL\<close> when there is none.\<close>

definition sql_sum :: "int list \<Rightarrow> int option" where
  "sql_sum xs = (if xs = [] then None else Some (sum_list xs))"

text \<open>
  \<^verbatim>\<open>query.filter(...).first()\<close> is \<^const>\<open>find\<close>. An attribute assigned on the object
  it returned is written back to that row, the first one that matches.
\<close>

fun update_first :: "('a \<Rightarrow> bool) \<Rightarrow> ('a \<Rightarrow> 'a) \<Rightarrow> 'a list \<Rightarrow> 'a list" where
  "update_first P f [] = []"
| "update_first P f (x # xs) = (if P x then f x # xs else x # update_first P f xs)"

section \<open>Request schemas and row defaults\<close>

text \<open>
  The bodies of the three requests, with the fields the routes read:
  \<^verbatim>\<open>BorrowingCreate\<close>, \<^verbatim>\<open>BorrowingReturn\<close> and \<^verbatim>\<open>PenaltyUpdate\<close>.
\<close>

record BorrowingCreate =
  bc_member_id :: ident
  bc_book_id :: ident
  bc_days :: int
  bc_notes :: "string option"

record BorrowingReturn =
  br_notes :: "string option"

record PenaltyUpdate =
  pu_paid_amount :: "int option"
  pu_notes :: "string option"

text \<open>
  Modelled from the spec: the column defaults of the \<^verbatim>\<open>Borrowing\<close> class of
  \<^verbatim>\<open>models.py\<close>, which is not among the sources. A loan is created in state
  \<^verbatim>\<open>borrowed\<close>, its \<^verbatim>\<open>borrow_date\<close> is the day of issue and its
  \<^verbatim>\<open>return_date\<close> is unset until it is returned. The key is chosen by the caller of
  the model. The arguments are those of the constructor call in \<^verbatim>\<open>create_borrowing\<close>.
\<close>

definition new_Borrowing ::
  "ident \<Rightarrow> date \<Rightarrow> ident \<Rightarrow> ident \<Rightarrow> ident \<Rightarrow> date \<Rightarrow> string option \<Rightarrow> Borrowing" where
  "new_Borrowing key today mid bid lid due nts =
     \<lparr>borrow_id = key, b_member_id = mid, b_book_id = bid, librarian_id = lid,
      borrow_date = today, due_date = due, return_date = None, b_status = Borrowed,
      b_notes = nts\<rparr>"

text \<open>
  Modelled from the spec: the column defaults of the \<^verbatim>\<open>Penalty\<close> class of
  \<^verbatim>\<open>models.py\<close>, which is not among the sources. A penalty is created
  \<^verbatim>\<open>unpaid\<close>, issued on the day it is created, with \<^verbatim>\<open>paid_date\<close> and
  \<^verbatim>\<open>paid_amount\<close> unset until it is paid. The arguments are those of the constructor
  call in \<^verbatim>\<open>return_book\<close>.
\<close>

definition new_Penalty :: "ident \<Rightarrow> date \<Rightarrow> ident \<Rightarrow> ident \<Rightarrow> int \<Rightarrow> detail \<Rightarrow> Penalty" where
  "new_Penalty key today mid brid amt rsn =
     \<lparr>penalty_id = key, p_member_id = mid, p_borrow_id = Some brid, amount = amt,
      reason = rsn, p_status = Unpaid, issued_date = today, paid_date = None,
      paid_amount = None, p_notes = None\<rparr>"

section \<open>Eligibility check\<close>

text \<open>
  \<^verbatim>\<open>can_borrow_book(db, member_id, book_id)\<close> of \<^verbatim>\<open>backend_utils.py\<close>. It only
  reads the database and returns the pair of the verdict and the message.
\<close>

definition MAX_CONCURRENT_BOOKS :: int where
  "MAX_CONCURRENT_BOOKS = 5"

definition unpaid_count :: "db \<Rightarrow> ident \<Rightarrow> nat" where
  "unpaid_count d mid =
     length (filter (\<lambda>p. p_member_id p = mid \<and> p_status p = Unpaid) (penalties d))"

definition can_borrow_book :: "db \<Rightarrow> ident \<Rightarrow> ident \<Rightarrow> bool \<times> detail option" where
  "can_borrow_book d mid bid =
     (case members d mid of
        None \<Rightarrow> (False, Some [Lit ''A'zo topilmadi''])
      | Some member \<Rightarrow>
          if \<not> member_is_active member then (False, Some [Lit ''A'zo faol emas''])
          else (case books d bid of
             None \<Rightarrow> (False, Some [Lit ''Kitob topilmadi''])
           | Some book \<Rightarrow>
               if \<not> book_is_active book then (False, Some [Lit ''Kitob faol emas''])
               else if available_copies book \<le> 0 then (False, Some [Lit ''Kitob mavjud emas''])
               else (let unpaid_penalties = int (unpaid_count d mid) in
                 if unpaid_penalties > 0
                 then (False, Some [Lit ''A'zoning '', Val unpaid_penalties,
                                    Lit '' ta to'lanmagan jarimasi bor''])
                 else if current_borrowed member \<ge> MAX_CONCURRENT_BOOKS
                 then (False, Some [Lit ''A'zo maksimal '', Val MAX_CONCURRENT_BOOKS,
                                    Lit '' ta kitobgacha ola oladi''])
                 else (True, None))))"

section \<open>The borrowing workflow\<close>

text \<open>
  Each route takes the database and returns its result, or the exception it raised,
  together with the database it leaves behind. Every \<^verbatim>\<open>raise\<close> comes before
  \<^verbatim>\<open>db.commit()\<close>, so a raising call leaves the database as it found it. The clock
  (\<^verbatim>\<open>date.today()\<close>) and the key of a new row are arguments.
\<close>

definition unpaid_sum :: "db \<Rightarrow> ident \<Rightarrow> int" where
  "unpaid_sum d mid =
     py_or (sql_sum (map amount
        (filter (\<lambda>p. p_member_id p = mid \<and> p_status p = Unpaid) (penalties d)))) 0"

text \<open>
  \<^verbatim>\<open>create_borrowing\<close> of \<^verbatim>\<open>backend_routes.py\<close>: a loan is issued. The due date
  is computed after the checks and before the row is created, so an
  \<^verbatim>\<open>OverflowError\<close> of the date arithmetic also leaves the database as it was.
\<close>

definition create_borrowing ::
  "date \<Rightarrow> ident \<Rightarrow> ident \<Rightarrow> BorrowingCreate \<Rightarrow> db \<Rightarrow> (error + Borrowing) \<times> db" where
  "create_borrowing today current_user key borrowing d =
     (case books d (bc_book_id borrowing) of
        None \<Rightarrow> (Inl (HTTPException 404 [Lit ''Kitob topilmadi'']), d)
      | Some book \<Rightarrow>
          if available_copies book \<le> 0
          then (Inl (HTTPException 400 [Lit ''Bu kitobning mavjud nusxalari yo'q'']), d)
          else (case members d (bc_member_id borrowing) of
             None \<Rightarrow> (Inl (HTTPException 404 [Lit ''A'zo topilmadi'']), d)
           | Some member \<Rightarrow>
               if \<not> member_is_active member
               then (Inl (HTTPException 400 [Lit ''Bu a'zo faol emas'']), d)
               else (let unpaid_penalties = unpaid_sum d (bc_member_id borrowing) in
                 if unpaid_penalties > 0
                 then (Inl (HTTPException 400
                         [Lit ''A'zoning '', Val unpaid_penalties,
                          Lit '' so'm to'lanmagan jarimasi bor'']), d)
                 else (case date_add_days today (bc_days borrowing) of
                    Inl e \<Rightarrow> (Inl e, d)
                  | Inr due \<Rightarrow>
                     (let db_borrowing = new_Borrowing key today (bc_member_id borrowing)
                              (bc_book_id borrowing) current_user due (bc_notes borrowing)
                      in (Inr db_borrowing,
                          d\<lparr>borrowings := borrowings d @ [db_borrowing],
                            books := (books d)(bc_book_id borrowing \<mapsto>
                               book\<lparr>available_copies := available_copies book - 1\<rparr>),
                            members := (members d)(bc_member_id borrowing \<mapsto>
                               member\<lparr>current_borrowed := current_borrowed member + 1,
                                      total_borrowed := total_borrowed member + 1\<rparr>)\<rparr>))))))"

text \<open>
  \<^verbatim>\<open>return_book\<close> of \<^verbatim>\<open>backend_routes.py\<close>: a loan is returned, and a penalty is
  created when it is late. The book and the member of the loan are fetched with
  \<^verbatim>\<open>first()\<close>; if one of them is gone, the update of its counter raises
  \<^verbatim>\<open>AttributeError\<close> before anything is committed.
\<close>

definition return_book ::
  "date \<Rightarrow> ident \<Rightarrow> ident \<Rightarrow> BorrowingReturn \<Rightarrow> db \<Rightarrow> (error + Borrowing) \<times> db" where
  "return_book today key brid return_data d =
     (case find (\<lambda>b. borrow_id b = brid) (borrowings d) of
        None \<Rightarrow> (Inl (HTTPException 404 [Lit ''Ijara topilmadi'']), d)
      | Some borrowing \<Rightarrow>
          if b_status borrowing = Returned
          then (Inl (HTTPException 400 [Lit ''Bu kitob allaqachon qaytarilgan'']), d)
          else (let is_late = today > due_date borrowing;
                    days_late = (if is_late then today - due_date borrowing else 0);
                    returned = borrowing\<lparr>b_status := Returned, return_date := Some today,
                       b_notes := (if truthy (br_notes return_data)
                                   then br_notes return_data else b_notes borrowing)\<rparr>
                in (case books d (b_book_id borrowing) of
                      None \<Rightarrow> (Inl AttributeError, d)
                    | Some book \<Rightarrow>
                       (case members d (b_member_id borrowing) of
                          None \<Rightarrow> (Inl AttributeError, d)
                        | Some member \<Rightarrow>
                           (Inr returned,
                            d\<lparr>borrowings :=
                                 update_first (\<lambda>b. borrow_id b = brid) (\<lambda>b. returned) (borrowings d),
                              books := (books d)(b_book_id borrowing \<mapsto>
                                 book\<lparr>available_copies := available_copies book + 1\<rparr>),
                              members := (members d)(b_member_id borrowing \<mapsto>
                                 member\<lparr>current_borrowed := current_borrowed member - 1\<rparr>),
                              penalties :=
                                 (if is_late
                                  then penalties d @
                                    [new_Penalty key today (b_member_id borrowing)
                                       (borrow_id borrowing) (days_late * 5000)
                                       [Lit ''Kitobni muddatidan '', Val days_late,
                                        Lit '' kun kechiktirib qaytarganlik uchun jarima'']]
                                  else penalties d)\<rparr>)))))"

text \<open>\<^verbatim>\<open>pay_penalty\<close> of \<^verbatim>\<open>backend_routes.py\<close>.\<close>

definition pay_penalty ::
  "date \<Rightarrow> ident \<Rightarrow> PenaltyUpdate \<Rightarrow> db \<Rightarrow> (error + Penalty) \<times> db" where
  "pay_penalty today pid payment d =
     (case find (\<lambda>p. penalty_id p = pid) (penalties d) of
        None \<Rightarrow> (Inl (HTTPException 404 [Lit ''Jarima topilmadi'']), d)
      | Some penalty \<Rightarrow>
          if p_status penalty = Paid
          then (Inl (HTTPException 400 [Lit ''Bu jarima allaqachon to'langan'']), d)
          else (let paid = penalty\<lparr>p_status := Paid, paid_date := Some today,
                       paid_amount := Some (py_or (pu_paid_amount payment) (amount penalty)),
                       p_notes := (if truthy (pu_notes payment)
                                   then pu_notes payment else p_notes penalty)\<rparr>
                in (Inr paid,
                    d\<lparr>penalties :=
                        update_first (\<lambda>p. penalty_id p = pid) (\<lambda>p. paid) (penalties d)\<rparr>)))"

section \<open>Error kinds and invariants of the specification\<close>

text \<open>
  The routes raise \<^verbatim>\<open>HTTPException\<close> with a status code: 404 where the specification
  says \<^verbatim>\<open>NotFound\<close>, and 400 both where it says \<^verbatim>\<open>Conflict\<close> and where it says
  \<^verbatim>\<open>Validation\<close>.
\<close>

definition NotFound :: nat where
  "NotFound = 404"

definition Conflict :: nat where
  "Conflict = 400"

definition raises :: "(error + 'a) \<times> db \<Rightarrow> nat \<Rightarrow> bool" where
  "raises r code = (case fst r of Inl (HTTPException c _) \<Rightarrow> c = code | _ \<Rightarrow> False)"

text \<open>An exception cites a number when the number is interpolated in its message.\<close>

definition cites :: "error \<Rightarrow> int \<Rightarrow> bool" where
  "cites e n = (case e of HTTPException c dt \<Rightarrow> Val n \<in> set dt | _ \<Rightarrow> False)"

text \<open>A loan is open while its status is \<^verbatim>\<open>borrowed\<close> or \<^verbatim>\<open>late\<close>.\<close>

definition open_loan :: "Borrowing \<Rightarrow> bool" where
  "open_loan b = (b_status b = Borrowed \<or> b_status b = Late)"

definition open_loans_of_member :: "db \<Rightarrow> ident \<Rightarrow> nat" where
  "open_loans_of_member d mid =
     length (filter (\<lambda>b. b_member_id b = mid \<and> open_loan b) (borrowings d))"

definition open_loans_of_book :: "db \<Rightarrow> ident \<Rightarrow> nat" where
  "open_loans_of_book d bid =
     length (filter (\<lambda>b. b_book_id b = bid \<and> open_loan b) (borrowings d))"

text \<open>
  The member invariant: \<^verbatim>\<open>current_borrowed\<close> is the number of the member's open
  loans.
\<close>

definition member_inv :: "db \<Rightarrow> bool" where
  "member_inv d =
     (\<forall>mid m. members d mid = Some m \<longrightarrow>
        current_borrowed m = int (open_loans_of_member d mid))"

text \<open>The book invariant: \<open>0 \<le> available_copies \<le> total_copies\<close>.\<close>

definition book_inv :: "db \<Rightarrow> bool" where
  "book_inv d =
     (\<forall>bid b. books d bid = Some b \<longrightarrow>
        0 \<le> available_copies b \<and> available_copies b \<le> total_copies b)"

text \<open>
  The ledger invariant: the copies on the shelf and the copies on loan together do not
  exceed the copies the library owns.
\<close>

definition ledger_inv :: "db \<Rightarrow> bool" where
  "ledger_inv d =
     (\<forall>bid b. books d bid = Some b \<longrightarrow>
        0 \<le> available_copies b
        \<and> available_copies b + int (open_loans_of_book d bid) \<le> total_copies b)"

section \<open>Example databases\<close>

text \<open>
  A small library: book 10 with three copies, one of them lent to member 1 until day 114.
\<close>

definition loan1 :: Borrowing where
  "loan1 = \<lparr>borrow_id = 1, b_member_id = 1, b_book_id = 10, librarian_id = 9,
            borrow_date = 100, due_date = 114, return_date = None, b_status = Borrowed,
            b_notes = None\<rparr>"

definition db1 :: db where
  "db1 = \<lparr>books = [10 \<mapsto> \<lparr>total_copies = 3, available_copies = 2, book_is_active = True\<rparr>],
          members = [1 \<mapsto> \<lparr>member_is_active = True, current_borrowed = 1, total_borrowed = 1\<rparr>],
          borrowings = [loan1], penalties = []\<rparr>"

definition issue1 :: BorrowingCreate where
  "issue1 = \<lparr>bc_member_id = 1, bc_book_id = 10, bc_days = 14, bc_notes = None\<rparr>"

text \<open>
  The same loan, but the counter of book 10 says that its only copy is on the shelf.
\<close>

definition db_full :: db where
  "db_full = \<lparr>books = [10 \<mapsto> \<lparr>total_copies = 1, available_copies = 1, book_is_active = True\<rparr>],
          members = [1 \<mapsto> \<lparr>member_is_active = True, current_borrowed = 1, total_borrowed = 1\<rparr>],
          borrowings = [loan1], penalties = []\<rparr>"


text \<open>Member 1 of the small library with two unpaid penalties of 5000 so'm each.\<close>

definition fine :: "ident \<Rightarrow> Penalty" where
  "fine k = \<lparr>penalty_id = k, p_member_id = 1, p_borrow_id = None, amount = 5000,
             reason = [Lit ''Test''], p_status = Unpaid, issued_date = 90, paid_date = None,
             paid_amount = None, p_notes = None\<rparr>"

definition db_debt :: db where
  "db_debt = db1\<lparr>penalties := [fine 1, fine 2]\<rparr>"

text \<open>
  A library where member 1 already holds five open loans of book 10, and where book 11
  has been withdrawn (\<^verbatim>\<open>is_active\<close> is false).
\<close>

definition db_cap :: db where
  "db_cap = \<lparr>books = [10 \<mapsto> \<lparr>total_copies = 10, available_copies = 5, book_is_active = True\<rparr>,
                      11 \<mapsto> \<lparr>total_copies = 2, available_copies = 2, book_is_active = False\<rparr>],
             members = [1 \<mapsto> \<lparr>member_is_active = True, current_borrowed = 5, total_borrowed = 5\<rparr>,
                        2 \<mapsto> \<lparr>member_is_active = True, current_borrowed = 0, total_borrowed = 0\<rparr>],
             borrowings = map (\<lambda>k. loan1\<lparr>borrow_id := k\<rparr>) [1, 2, 3, 4, 5],
             penalties = []\<rparr>"

definition issue2 :: BorrowingCreate where
  "issue2 = \<lparr>bc_member_id = 2, bc_book_id = 11, bc_days = 14, bc_notes = None\<rparr>"

section \<open>The eligibility rules of the specification\<close>

text \<open>
  The four rules in the words of the specification: the member exists and is active;
  the book exists, is active and has a copy available; the member has zero penalties
  with status \<^verbatim>\<open>unpaid\<close>; the member holds fewer than five books. The open penalty
  count of a member adds one for each penalty row that is the member's and is
  \<^verbatim>\<open>unpaid\<close>.
\<close>

definition rule_member :: "db \<Rightarrow> ident \<Rightarrow> bool" where
  "rule_member d mid = (case members d mid of None \<Rightarrow> False | Some m \<Rightarrow> member_is_active m)"

definition rule_book :: "db \<Rightarrow> ident \<Rightarrow> bool" where
  "rule_book d bid =
     (case books d bid of None \<Rightarrow> False | Some b \<Rightarrow> book_is_active b \<and> 0 < available_copies b)"

definition open_penalty_count :: "db \<Rightarrow> ident \<Rightarrow> int" where
  "open_penalty_count d mid =
     (\<Sum>p\<leftarrow>penalties d. if p_member_id p = mid \<and> p_status p = Unpaid then 1 else 0)"

definition rule_penalties :: "db \<Rightarrow> ident \<Rightarrow> bool" where
  "rule_penalties d mid = (open_penalty_count d mid = 0)"

definition rule_cap :: "db \<Rightarrow> ident \<Rightarrow> bool" where
  "rule_cap d mid = (case members d mid of None \<Rightarrow> False | Some m \<Rightarrow> current_borrowed m < 5)"

section \<open>Properties of the penalty calculator\<close>
















section \<open>Facts about the workflow\<close>

lemma find_update_first:
  "find P xs = Some x \<Longrightarrow> P (f x) \<Longrightarrow> find P (update_first P f xs) = Some (f x)"
  by (induction xs) (auto split: if_splits)

lemma length_update_first: "length (update_first P f xs) = length xs"
  by (induction xs) auto

lemma count_update_first_drop:
  "find P xs = Some x \<Longrightarrow> Q x \<Longrightarrow> \<not> Q (f x) \<Longrightarrow>
     length (filter Q (update_first P f xs)) + 1 = length (filter Q xs)"
  by (induction xs) (auto split: if_splits)

lemma count_update_first_same:
  "find P xs = Some x \<Longrightarrow> Q (f x) = Q x \<Longrightarrow>
     length (filter Q (update_first P f xs)) = length (filter Q xs)"
  by (induction xs) (auto split: if_splits)

lemma find_Some_holds: "find P xs = Some x \<Longrightarrow> P x"
  by (induction xs) (auto split: if_splits)




lemma return_book_not_found:
  "raises (return_book today key brid rd d) NotFound \<longleftrightarrow> find (\<lambda>b. borrow_id b = brid) (borrowings d) = None"
  by (auto simp: return_book_def raises_def NotFound_def Let_def split: option.splits)

lemma return_book_conflict:
  "raises (return_book today key brid rd d) Conflict \<longleftrightarrow>
     (case find (\<lambda>b. borrow_id b = brid) (borrowings d) of None \<Rightarrow> False | Some b \<Rightarrow> b_status b = Returned)"
  by (auto simp: return_book_def raises_def Conflict_def Let_def split: option.splits)

lemma return_book_Inr:
  assumes "return_book today key brid rd d = (Inr r, d')"
  obtains b bk m where "find (\<lambda>b. borrow_id b = brid) (borrowings d) = Some b"
    and "b_status b \<noteq> Returned" and "books d (b_book_id b) = Some bk"
    and "members d (b_member_id b) = Some m"
    and "r = b\<lparr>b_status := Returned, return_date := Some today,
                 b_notes := (if truthy (br_notes rd) then br_notes rd else b_notes b)\<rparr>"
    and "borrowings d' = update_first (\<lambda>b. borrow_id b = brid) (\<lambda>b. r) (borrowings d)"
    and "books d' = (books d)(b_book_id b \<mapsto> bk\<lparr>available_copies := available_copies bk + 1\<rparr>)"
    and "members d' = (members d)(b_member_id b \<mapsto> m\<lparr>current_borrowed := current_borrowed m - 1\<rparr>)"
    and "penalties d' =
           (if today > due_date b
            then penalties d @ [new_Penalty key today (b_member_id b) (borrow_id b)
                    ((today - due_date b) * 5000)
                    [Lit ''Kitobni muddatidan '', Val (today - due_date b),
                     Lit '' kun kechiktirib qaytarganlik uchun jarima'']]
            else penalties d)"
proof (cases "find (\<lambda>b. borrow_id b = brid) (borrowings d)")
  case None
  with assms show ?thesis by (simp add: return_book_def)
next
  case (Some b)
  note fb = this
  show ?thesis
  proof (cases "b_status b = Returned")
    case True
    with assms fb show ?thesis by (simp add: return_book_def)
  next
    case ns: False
    show ?thesis
    proof (cases "books d (b_book_id b)")
      case None
      with assms fb ns show ?thesis by (simp add: return_book_def Let_def)
    next
      case (Some bk)
      note bb = this
      show ?thesis
      proof (cases "members d (b_member_id b)")
        case None
        with assms fb ns bb show ?thesis by (simp add: return_book_def Let_def)
      next
        case (Some m)
        with assms fb ns bb that[of b bk m] show ?thesis
          by (simp add: return_book_def Let_def split: if_splits) auto
      qed
    qed
  qed
qed

lemma return_book_success:
  assumes "return_book today key brid rd d = (Inr b, d')"
  shows "find (\<lambda>b. borrow_id b = brid) (borrowings d') = Some b \<and> b_status b = Returned"
proof -
  from assms obtain b0 where f: "find (\<lambda>b. borrow_id b = brid) (borrowings d) = Some b0"
    and r: "b = b0\<lparr>b_status := Returned, return_date := Some today,
                 b_notes := (if truthy (br_notes rd) then br_notes rd else b_notes b0)\<rparr>"
    and bs: "borrowings d' = update_first (\<lambda>b. borrow_id b = brid) (\<lambda>x. b) (borrowings d)"
    by (rule return_book_Inr)
  from f have "borrow_id b0 = brid" by (rule find_Some_holds)
  with r have "borrow_id b = brid" by simp
  with f have "find (\<lambda>b. borrow_id b = brid) (update_first (\<lambda>b. borrow_id b = brid) (\<lambda>x. b) (borrowings d)) = Some b"
    by (simp add: find_update_first)
  with bs r show ?thesis by simp
qed


lemma return_book_ok:
  assumes "find (\<lambda>b. borrow_id b = brid) (borrowings d) = Some b"
    and "b_status b \<noteq> Returned" and "books d (b_book_id b) = Some bk"
    and "members d (b_member_id b) = Some m"
  shows "fst (return_book today key brid rd d) =
           Inr (b\<lparr>b_status := Returned, return_date := Some today,
                 b_notes := (if truthy (br_notes rd) then br_notes rd else b_notes b)\<rparr>)"
  using assms by (simp add: return_book_def Let_def)

lemma return_book_Inl_unchanged:
  "fst (return_book today key brid rd d) = Inl e \<Longrightarrow> snd (return_book today key brid rd d) = d"
  by (auto simp: return_book_def Let_def split: option.splits if_splits)

lemma date_add_days_Inr: "date_add_days t n = Inr x \<Longrightarrow> x = t + n"
  by (simp add: date_add_days_def split: if_splits)

lemma create_borrowing_Inl_unchanged:
  "fst (create_borrowing today u key rq d) = Inl e \<Longrightarrow> snd (create_borrowing today u key rq d) = d"
  by (auto simp: create_borrowing_def Let_def split: option.splits if_splits sum.splits)

lemma create_borrowing_Inr:
  assumes "create_borrowing today u key rq d = (Inr r, d')"
  obtains bk m where "books d (bc_book_id rq) = Some bk" and "0 < available_copies bk"
    and "members d (bc_member_id rq) = Some m" and "member_is_active m"
    and "unpaid_sum d (bc_member_id rq) \<le> 0"
    and "r = new_Borrowing key today (bc_member_id rq) (bc_book_id rq) u (today + bc_days rq) (bc_notes rq)"
    and "borrowings d' = borrowings d @ [r]"
    and "books d' = (books d)(bc_book_id rq \<mapsto> bk\<lparr>available_copies := available_copies bk - 1\<rparr>)"
    and "members d' = (members d)(bc_member_id rq \<mapsto>
            m\<lparr>current_borrowed := current_borrowed m + 1, total_borrowed := total_borrowed m + 1\<rparr>)"
    and "penalties d' = penalties d"
    and "date_add_days today (bc_days rq) = Inr (today + bc_days rq)"
proof (cases "books d (bc_book_id rq)")
  case None
  with assms show ?thesis by (simp add: create_borrowing_def)
next
  case (Some bk)
  note bb = this
  show ?thesis
  proof (cases "members d (bc_member_id rq)")
    case None
    with assms bb show ?thesis by (simp add: create_borrowing_def split: if_splits)
  next
    case (Some m)
    note mm = this
    show ?thesis
    proof (cases "date_add_days today (bc_days rq)")
      case (Inl e)
      with assms bb mm show ?thesis
        by (simp add: create_borrowing_def Let_def split: if_splits)
    next
      case (Inr due)
      then have "due = today + bc_days rq" by (rule date_add_days_Inr)
      with Inr assms bb mm that[of bk m] show ?thesis
        by (simp add: create_borrowing_def Let_def split: if_splits) auto
    qed
  qed
qed

lemma create_borrowing_ok:
  assumes "books d (bc_book_id rq) = Some bk" and "0 < available_copies bk"
    and "members d (bc_member_id rq) = Some m" and "member_is_active m"
    and "unpaid_sum d (bc_member_id rq) \<le> 0"
    and "date_add_days today (bc_days rq) = Inr due"
  shows "fst (create_borrowing today u key rq d) =
           Inr (new_Borrowing key today (bc_member_id rq) (bc_book_id rq) u due (bc_notes rq))"
  using assms by (simp add: create_borrowing_def Let_def)








lemma open_loan_iff: "open_loan b \<longleftrightarrow> b_status b \<noteq> Returned"
  by (cases "b_status b") (simp_all add: open_loan_def)

lemma return_open_loans_of_member:
  assumes "return_book today key brid rd d = (Inr r, d')"
  obtains b where "find (\<lambda>b. borrow_id b = brid) (borrowings d) = Some b"
    and "open_loans_of_member d' (b_member_id b) + 1 = open_loans_of_member d (b_member_id b)"
    and "\<And>mid. mid \<noteq> b_member_id b \<Longrightarrow> open_loans_of_member d' mid = open_loans_of_member d mid"
    and "open_loans_of_book d' (b_book_id b) + 1 = open_loans_of_book d (b_book_id b)"
    and "\<And>bid. bid \<noteq> b_book_id b \<Longrightarrow> open_loans_of_book d' bid = open_loans_of_book d bid"
proof -
  from assms obtain b where f: "find (\<lambda>b. borrow_id b = brid) (borrowings d) = Some b"
    and ns: "b_status b \<noteq> Returned"
    and r: "r = b\<lparr>b_status := Returned, return_date := Some today,
                 b_notes := (if truthy (br_notes rd) then br_notes rd else b_notes b)\<rparr>"
    and bs: "borrowings d' = update_first (\<lambda>b. borrow_id b = brid) (\<lambda>x. r) (borrowings d)"
    by (rule return_book_Inr)
  have closed: "\<not> open_loan r" using r by (simp add: open_loan_iff)
  have opn: "open_loan b" using ns by (simp add: open_loan_iff)
  have rm: "b_member_id r = b_member_id b" and rb: "b_book_id r = b_book_id b"
    using r by simp_all
  have 1: "open_loans_of_member d' (b_member_id b) + 1 = open_loans_of_member d (b_member_id b)"
    unfolding open_loans_of_member_def bs
    by (rule count_update_first_drop [OF f]) (simp_all add: opn closed)
  have 2: "open_loans_of_member d' mid = open_loans_of_member d mid" if "mid \<noteq> b_member_id b" for mid
    unfolding open_loans_of_member_def bs
    by (rule count_update_first_same [OF f]) (use that rm in auto)
  have 3: "open_loans_of_book d' (b_book_id b) + 1 = open_loans_of_book d (b_book_id b)"
    unfolding open_loans_of_book_def bs
    by (rule count_update_first_drop [OF f]) (simp_all add: opn closed)
  have 4: "open_loans_of_book d' bid = open_loans_of_book d bid" if "bid \<noteq> b_book_id b" for bid
    unfolding open_loans_of_book_def bs
    by (rule count_update_first_same [OF f]) (use that rb in auto)
  from f 1 2 3 4 show ?thesis by (rule that)
qed

lemma return_book_member_inv:
  assumes inv: "member_inv d"
  shows "member_inv (snd (return_book today key brid rd d))"
proof (cases "fst (return_book today key brid rd d)")
  case (Inl e)
  then have "snd (return_book today key brid rd d) = d" by (rule return_book_Inl_unchanged)
  with inv show ?thesis by simp
next
  case (Inr r)
  define d' where "d' = snd (return_book today key brid rd d)"
  from Inr have eq: "return_book today key brid rd d = (Inr r, d')"
    by (simp add: d'_def prod_eq_iff)
  from eq obtain b where f: "find (\<lambda>b. borrow_id b = brid) (borrowings d) = Some b"
    and c1: "open_loans_of_member d' (b_member_id b) + 1 = open_loans_of_member d (b_member_id b)"
    and c2: "\<And>mid. mid \<noteq> b_member_id b \<Longrightarrow> open_loans_of_member d' mid = open_loans_of_member d mid"
    by (rule return_open_loans_of_member) blast
  from eq obtain b0 m where f0: "find (\<lambda>b. borrow_id b = brid) (borrowings d) = Some b0"
    and mm: "members d (b_member_id b0) = Some m"
    and ms: "members d' = (members d)(b_member_id b0 \<mapsto> m\<lparr>current_borrowed := current_borrowed m - 1\<rparr>)"
    by (rule return_book_Inr)
  from f f0 have b0: "b0 = b" by simp
  have "member_inv d'"
    unfolding member_inv_def
  proof (intro allI impI)
    fix mid x assume lk: "members d' mid = Some x"
    show "current_borrowed x = int (open_loans_of_member d' mid)"
    proof (cases "mid = b_member_id b")
      case True
      with lk ms b0 have x: "x = m\<lparr>current_borrowed := current_borrowed m - 1\<rparr>" by simp
      from inv mm b0 have "current_borrowed m = int (open_loans_of_member d (b_member_id b))"
        by (simp add: member_inv_def)
      with c1 x True show ?thesis by simp
    next
      case False
      with lk ms b0 have "members d mid = Some x" by simp
      with inv have "current_borrowed x = int (open_loans_of_member d mid)"
        by (simp add: member_inv_def)
      with c2 [OF False] show ?thesis by simp
    qed
  qed
  then show ?thesis by (simp add: d'_def)
qed

lemma create_open_loans:
  assumes "create_borrowing today u key rq d = (Inr r, d')"
  shows "open_loans_of_member d' mid = open_loans_of_member d mid + (if mid = bc_member_id rq then 1 else 0)"
    and "open_loans_of_book d' bid = open_loans_of_book d bid + (if bid = bc_book_id rq then 1 else 0)"
proof -
  from assms obtain
    r: "r = new_Borrowing key today (bc_member_id rq) (bc_book_id rq) u (today + bc_days rq) (bc_notes rq)"
    and bs: "borrowings d' = borrowings d @ [r]"
    by (rule create_borrowing_Inr)
  from r have "open_loan r" "b_member_id r = bc_member_id rq" "b_book_id r = bc_book_id rq"
    by (simp_all add: new_Borrowing_def open_loan_def)
  then show "open_loans_of_member d' mid = open_loans_of_member d mid + (if mid = bc_member_id rq then 1 else 0)"
    and "open_loans_of_book d' bid = open_loans_of_book d bid + (if bid = bc_book_id rq then 1 else 0)"
    by (auto simp: open_loans_of_member_def open_loans_of_book_def bs)
qed

lemma create_borrowing_member_inv:
  assumes inv: "member_inv d"
  shows "member_inv (snd (create_borrowing today u key rq d))"
proof (cases "fst (create_borrowing today u key rq d)")
  case (Inl e)
  then have "snd (create_borrowing today u key rq d) = d" by (rule create_borrowing_Inl_unchanged)
  with inv show ?thesis by simp
next
  case (Inr r)
  define d' where "d' = snd (create_borrowing today u key rq d)"
  from Inr have eq: "create_borrowing today u key rq d = (Inr r, d')"
    by (simp add: d'_def prod_eq_iff)
  from eq obtain m where mm: "members d (bc_member_id rq) = Some m"
    and ms: "members d' = (members d)(bc_member_id rq \<mapsto>
            m\<lparr>current_borrowed := current_borrowed m + 1, total_borrowed := total_borrowed m + 1\<rparr>)"
    by (rule create_borrowing_Inr)
  note cnt = create_open_loans(1) [OF eq]
  have "member_inv d'"
    unfolding member_inv_def
  proof (intro allI impI)
    fix mid x assume lk: "members d' mid = Some x"
    show "current_borrowed x = int (open_loans_of_member d' mid)"
    proof (cases "mid = bc_member_id rq")
      case True
      with lk ms have x: "current_borrowed x = current_borrowed m + 1" by auto
      from inv mm have "current_borrowed m = int (open_loans_of_member d (bc_member_id rq))"
        by (simp add: member_inv_def)
      with x True show ?thesis by (simp add: cnt)
    next
      case False
      with lk ms have "members d mid = Some x" by simp
      with inv have "current_borrowed x = int (open_loans_of_member d mid)"
        by (simp add: member_inv_def)
      with False show ?thesis by (simp add: cnt)
    qed
  qed
  then show ?thesis by (simp add: d'_def)
qed

lemma create_borrowing_effect:
  assumes "create_borrowing today u key rq d = (Inr r, d')"
  shows "b_status r = Borrowed \<and> borrowings d' = borrowings d @ [r]
     \<and> (\<exists>m. members d (bc_member_id rq) = Some m
          \<and> map_option current_borrowed (members d' (bc_member_id rq)) = Some (current_borrowed m + 1))"
proof -
  from assms obtain m where "members d (bc_member_id rq) = Some m"
    and "members d' = (members d)(bc_member_id rq \<mapsto>
            m\<lparr>current_borrowed := current_borrowed m + 1, total_borrowed := total_borrowed m + 1\<rparr>)"
    and "r = new_Borrowing key today (bc_member_id rq) (bc_book_id rq) u (today + bc_days rq) (bc_notes rq)"
    and "borrowings d' = borrowings d @ [r]"
    by (rule create_borrowing_Inr)
  then show ?thesis by (simp add: new_Borrowing_def)
qed

lemma return_book_effect:
  assumes "return_book today key brid rd d = (Inr r, d')"
  shows "b_status r = Returned \<and> find (\<lambda>b. borrow_id b = brid) (borrowings d') = Some r
     \<and> (\<exists>b m. find (\<lambda>b. borrow_id b = brid) (borrowings d) = Some b
          \<and> open_loan b
          \<and> members d (b_member_id b) = Some m
          \<and> map_option current_borrowed (members d' (b_member_id b)) = Some (current_borrowed m - 1))"
proof -
  from assms obtain b m where "find (\<lambda>b. borrow_id b = brid) (borrowings d) = Some b"
    and "b_status b \<noteq> Returned"
    and "members d (b_member_id b) = Some m"
    and "members d' = (members d)(b_member_id b \<mapsto> m\<lparr>current_borrowed := current_borrowed m - 1\<rparr>)"
    by (rule return_book_Inr)
  with return_book_success [OF assms] show ?thesis
    by (auto simp: open_loan_iff)
qed

text \<open>
  C6. For every member, \<^verbatim>\<open>current_borrowed\<close> equals the number of the member's
  loans whose status is \<^verbatim>\<open>borrowed\<close> or \<^verbatim>\<open>late\<close>, before and after every
  issue and every return: a successful issue appends a loan in status
  \<^verbatim>\<open>borrowed\<close> and adds one to the counter of its member, a successful return sets
  the status of an open loan to \<^verbatim>\<open>returned\<close> and takes one from the counter of
  its member, and a rejected call changes nothing.
\<close>

theorem C6_current_borrowed_counts_open_loans:
  "member_inv d \<Longrightarrow>
     member_inv (snd (create_borrowing today u key rq d))
     \<and> member_inv (snd (return_book rday pkey brid rd d))
     \<and> (\<forall>r d'. create_borrowing today u key rq d = (Inr r, d') \<longrightarrow>
           b_status r = Borrowed \<and> borrowings d' = borrowings d @ [r]
           \<and> (\<exists>m. members d (bc_member_id rq) = Some m
                \<and> map_option current_borrowed (members d' (bc_member_id rq))
                    = Some (current_borrowed m + 1)))
     \<and> (\<forall>r d'. return_book rday pkey brid rd d = (Inr r, d') \<longrightarrow>
           b_status r = Returned
           \<and> find (\<lambda>b. borrow_id b = brid) (borrowings d') = Some r
           \<and> (\<exists>b m. find (\<lambda>b. borrow_id b = brid) (borrowings d) = Some b
                \<and> open_loan b
                \<and> members d (b_member_id b) = Some m
                \<and> map_option current_borrowed (members d' (b_member_id b))
                    = Some (current_borrowed m - 1)))"
proof (intro conjI allI impI)
  assume inv: "member_inv d"
  show "member_inv (snd (create_borrowing today u key rq d))"
    using inv by (rule create_borrowing_member_inv)
  show "member_inv (snd (return_book rday pkey brid rd d))"
    using inv by (rule return_book_member_inv)
next
  fix r d' assume eq: "create_borrowing today u key rq d = (Inr r, d')"
  note e = create_borrowing_effect [OF eq]
  from e show "b_status r = Borrowed" by simp
  from e show "borrowings d' = borrowings d @ [r]" by simp
  from e show "\<exists>m. members d (bc_member_id rq) = Some m
         \<and> map_option current_borrowed (members d' (bc_member_id rq)) = Some (current_borrowed m + 1)"
    by simp
next
  fix r d' assume eq: "return_book rday pkey brid rd d = (Inr r, d')"
  note e = return_book_effect [OF eq]
  from e show "b_status r = Returned" by simp
  from e show "find (\<lambda>b. borrow_id b = brid) (borrowings d') = Some r" by simp
  from e show "\<exists>b m. find (\<lambda>b. borrow_id b = brid) (borrowings d) = Some b
         \<and> open_loan b
         \<and> members d (b_member_id b) = Some m
         \<and> map_option current_borrowed (members d' (b_member_id b)) = Some (current_borrowed m - 1)"
    by simp
qed

theorem C6_current_borrowed_counts_open_loans_witness:
  "member_inv db1
   \<and> member_inv (snd (create_borrowing 100 9 2 issue1 db1))
   \<and> member_inv (snd (return_book 120 1 1 \<lparr>br_notes = None\<rparr> db1))
   \<and> map_option current_borrowed (members (snd (create_borrowing 100 9 2 issue1 db1)) 1) = Some 2
   \<and> map_option current_borrowed (members (snd (return_book 120 1 1 \<lparr>br_notes = None\<rparr> db1)) 1) = Some 0"
proof -
  have h: "member_inv db1"
    by (simp add: member_inv_def db1_def loan1_def open_loans_of_member_def open_loan_def)
  have a: "map_option current_borrowed (members (snd (create_borrowing 100 9 2 issue1 db1)) 1) = Some 2"
    by (simp add: create_borrowing_def db1_def issue1_def loan1_def unpaid_sum_def sql_sum_def py_or_def date_add_days_def Let_def)
  have b: "map_option current_borrowed (members (snd (return_book 120 1 1 \<lparr>br_notes = None\<rparr> db1)) 1) = Some 0"
    by (simp add: return_book_def db1_def loan1_def truthy_def Let_def)
  from h a b C6_current_borrowed_counts_open_loans [where d = db1 and today = 100 and u = 9
      and key = 2 and rq = issue1 and rday = 120 and pkey = 1 and brid = 1
      and rd = "\<lparr>br_notes = None\<rparr>"]
  show ?thesis by simp
qed

text \<open>
  C4. A return fails with \<^verbatim>\<open>NotFound\<close> exactly when no loan has the given
  identity, and with \<^verbatim>\<open>Conflict\<close> exactly when the loan is already
  \<^verbatim>\<open>returned\<close>. After a successful return, any second return of the same loan
  raises \<^verbatim>\<open>Conflict\<close>, the loan stays \<^verbatim>\<open>returned\<close> and the database is
  left as it was: the second call is an error, not a silent no-op.
\<close>

theorem C4_return_errors:
  "(raises (return_book today key brid rd d) NotFound
      \<longleftrightarrow> find (\<lambda>b. borrow_id b = brid) (borrowings d) = None)
   \<and> (raises (return_book today key brid rd d) Conflict
      \<longleftrightarrow> (\<exists>b. find (\<lambda>b. borrow_id b = brid) (borrowings d) = Some b \<and> b_status b = Returned))
   \<and> (\<forall>r d'. return_book today key brid rd d = (Inr r, d') \<longrightarrow>
         raises (return_book next_day next_key brid next_rd d') Conflict
         \<and> snd (return_book next_day next_key brid next_rd d') = d'
         \<and> map_option b_status (find (\<lambda>b. borrow_id b = brid) (borrowings d')) = Some Returned)"
proof (intro conjI allI impI)
  show "raises (return_book today key brid rd d) NotFound
      \<longleftrightarrow> find (\<lambda>b. borrow_id b = brid) (borrowings d) = None"
    by (rule return_book_not_found)
  show "raises (return_book today key brid rd d) Conflict
      \<longleftrightarrow> (\<exists>b. find (\<lambda>b. borrow_id b = brid) (borrowings d) = Some b \<and> b_status b = Returned)"
    by (simp add: return_book_conflict split: option.splits)
next
  fix r d' assume eq: "return_book today key brid rd d = (Inr r, d')"
  note s = return_book_success [OF eq]
  from s show c: "raises (return_book next_day next_key brid next_rd d') Conflict"
    by (simp add: return_book_conflict)
  from c obtain e where "fst (return_book next_day next_key brid next_rd d') = Inl e"
    by (auto simp: raises_def split: sum.splits)
  then show "snd (return_book next_day next_key brid next_rd d') = d'"
    by (rule return_book_Inl_unchanged)
  from s show "map_option b_status (find (\<lambda>b. borrow_id b = brid) (borrowings d')) = Some Returned"
    by simp
qed

theorem C4_return_errors_witness:
  "fst (return_book 120 1 1 \<lparr>br_notes = None\<rparr> db1) = Inr (loan1\<lparr>b_status := Returned, return_date := Some 120\<rparr>)
   \<and> raises (return_book 121 2 1 \<lparr>br_notes = None\<rparr> (snd (return_book 120 1 1 \<lparr>br_notes = None\<rparr> db1))) Conflict
   \<and> snd (return_book 121 2 1 \<lparr>br_notes = None\<rparr> (snd (return_book 120 1 1 \<lparr>br_notes = None\<rparr> db1)))
       = snd (return_book 120 1 1 \<lparr>br_notes = None\<rparr> db1)
   \<and> raises (return_book 120 1 7 \<lparr>br_notes = None\<rparr> db1) NotFound"
proof -
  have a: "fst (return_book 120 1 1 \<lparr>br_notes = None\<rparr> db1)
             = Inr (loan1\<lparr>b_status := Returned, return_date := Some 120\<rparr>)"
    by (simp add: return_book_def db1_def loan1_def truthy_def Let_def)
  then have eq: "return_book 120 1 1 \<lparr>br_notes = None\<rparr> db1
             = (Inr (loan1\<lparr>b_status := Returned, return_date := Some 120\<rparr>),
                snd (return_book 120 1 1 \<lparr>br_notes = None\<rparr> db1))"
    by (simp add: prod_eq_iff)
  have nf: "find (\<lambda>b. borrow_id b = 7) (borrowings db1) = None"
    by (simp add: db1_def loan1_def)
  note t = C4_return_errors [where today = 120 and key = 1 and brid = 1
      and rd = "\<lparr>br_notes = None\<rparr>" and d = db1 and next_day = 121 and next_key = 2
      and next_rd = "\<lparr>br_notes = None\<rparr>"]
  note t7 = C4_return_errors [where today = 120 and key = 1 and brid = 7
      and rd = "\<lparr>br_notes = None\<rparr>" and d = db1]
  from t eq have "raises (return_book 121 2 1 \<lparr>br_notes = None\<rparr> (snd (return_book 120 1 1 \<lparr>br_notes = None\<rparr> db1))) Conflict
     \<and> snd (return_book 121 2 1 \<lparr>br_notes = None\<rparr> (snd (return_book 120 1 1 \<lparr>br_notes = None\<rparr> db1)))
       = snd (return_book 120 1 1 \<lparr>br_notes = None\<rparr> db1)"
    by blast
  moreover from t7 nf have "raises (return_book 120 1 7 \<lparr>br_notes = None\<rparr> db1) NotFound"
    by blast
  ultimately show ?thesis using a by simp
qed





lemma ledger_inv_book_inv: "ledger_inv d \<Longrightarrow> book_inv d"
  by (fastforce simp: ledger_inv_def book_inv_def)

lemma create_borrowing_book_inv:
  assumes inv: "book_inv d"
  shows "book_inv (snd (create_borrowing today u key rq d))"
proof (cases "fst (create_borrowing today u key rq d)")
  case (Inl e)
  then have "snd (create_borrowing today u key rq d) = d" by (rule create_borrowing_Inl_unchanged)
  with inv show ?thesis by simp
next
  case (Inr r)
  define d' where "d' = snd (create_borrowing today u key rq d)"
  from Inr have eq: "create_borrowing today u key rq d = (Inr r, d')"
    by (simp add: d'_def prod_eq_iff)
  from eq obtain bk where bb: "books d (bc_book_id rq) = Some bk" and pos: "0 < available_copies bk"
    and bs: "books d' = (books d)(bc_book_id rq \<mapsto> bk\<lparr>available_copies := available_copies bk - 1\<rparr>)"
    by (rule create_borrowing_Inr)
  have "book_inv d'"
    unfolding book_inv_def
  proof (intro allI impI)
    fix bid x assume lk: "books d' bid = Some x"
    show "0 \<le> available_copies x \<and> available_copies x \<le> total_copies x"
    proof (cases "bid = bc_book_id rq")
      case True
      with lk bs have x: "x = bk\<lparr>available_copies := available_copies bk - 1\<rparr>" by simp
      from inv bb have "available_copies bk \<le> total_copies bk" by (simp add: book_inv_def)
      with pos x show ?thesis by simp
    next
      case False
      with lk bs have "books d bid = Some x" by simp
      with inv show ?thesis by (simp add: book_inv_def)
    qed
  qed
  then show ?thesis by (simp add: d'_def)
qed

lemma create_borrowing_ledger_inv:
  assumes inv: "ledger_inv d"
  shows "ledger_inv (snd (create_borrowing today u key rq d))"
proof (cases "fst (create_borrowing today u key rq d)")
  case (Inl e)
  then have "snd (create_borrowing today u key rq d) = d" by (rule create_borrowing_Inl_unchanged)
  with inv show ?thesis by simp
next
  case (Inr r)
  define d' where "d' = snd (create_borrowing today u key rq d)"
  from Inr have eq: "create_borrowing today u key rq d = (Inr r, d')"
    by (simp add: d'_def prod_eq_iff)
  from eq obtain bk where bb: "books d (bc_book_id rq) = Some bk" and pos: "0 < available_copies bk"
    and bs: "books d' = (books d)(bc_book_id rq \<mapsto> bk\<lparr>available_copies := available_copies bk - 1\<rparr>)"
    by (rule create_borrowing_Inr)
  note cnt = create_open_loans(2) [OF eq]
  have "ledger_inv d'"
    unfolding ledger_inv_def
  proof (intro allI impI)
    fix bid x assume lk: "books d' bid = Some x"
    show "0 \<le> available_copies x \<and> available_copies x + int (open_loans_of_book d' bid) \<le> total_copies x"
    proof (cases "bid = bc_book_id rq")
      case True
      with lk bs have x: "x = bk\<lparr>available_copies := available_copies bk - 1\<rparr>" by simp
      from inv bb have "available_copies bk + int (open_loans_of_book d (bc_book_id rq)) \<le> total_copies bk"
        by (simp add: ledger_inv_def)
      with pos x True show ?thesis by (simp add: cnt)
    next
      case False
      with lk bs have "books d bid = Some x" by simp
      with inv False show ?thesis by (simp add: ledger_inv_def cnt)
    qed
  qed
  then show ?thesis by (simp add: d'_def)
qed

lemma return_book_ledger_inv:
  assumes inv: "ledger_inv d"
  shows "ledger_inv (snd (return_book today key brid rd d))"
proof (cases "fst (return_book today key brid rd d)")
  case (Inl e)
  then have "snd (return_book today key brid rd d) = d" by (rule return_book_Inl_unchanged)
  with inv show ?thesis by simp
next
  case (Inr r)
  define d' where "d' = snd (return_book today key brid rd d)"
  from Inr have eq: "return_book today key brid rd d = (Inr r, d')"
    by (simp add: d'_def prod_eq_iff)
  from eq obtain b where f: "find (\<lambda>b. borrow_id b = brid) (borrowings d) = Some b"
    and c1: "open_loans_of_book d' (b_book_id b) + 1 = open_loans_of_book d (b_book_id b)"
    and c2: "\<And>bid. bid \<noteq> b_book_id b \<Longrightarrow> open_loans_of_book d' bid = open_loans_of_book d bid"
    by (rule return_open_loans_of_member) blast
  from eq obtain b0 bk where f0: "find (\<lambda>b. borrow_id b = brid) (borrowings d) = Some b0"
    and bb: "books d (b_book_id b0) = Some bk"
    and bs: "books d' = (books d)(b_book_id b0 \<mapsto> bk\<lparr>available_copies := available_copies bk + 1\<rparr>)"
    by (rule return_book_Inr)
  from f f0 have b0: "b0 = b" by simp
  have "ledger_inv d'"
    unfolding ledger_inv_def
  proof (intro allI impI)
    fix bid x assume lk: "books d' bid = Some x"
    show "0 \<le> available_copies x \<and> available_copies x + int (open_loans_of_book d' bid) \<le> total_copies x"
    proof (cases "bid = b_book_id b")
      case True
      with lk bs b0 have x: "x = bk\<lparr>available_copies := available_copies bk + 1\<rparr>" by simp
      from inv bb b0 have "0 \<le> available_copies bk
          \<and> available_copies bk + int (open_loans_of_book d (b_book_id b)) \<le> total_copies bk"
        by (simp add: ledger_inv_def)
      with c1 x True show ?thesis by auto
    next
      case False
      with lk bs b0 have "books d bid = Some x" by simp
      with inv have "0 \<le> available_copies x
          \<and> available_copies x + int (open_loans_of_book d bid) \<le> total_copies x"
        by (simp add: ledger_inv_def)
      with c2 [OF False] show ?thesis by simp
    qed
  qed
  then show ?thesis by (simp add: d'_def)
qed

text \<open>
  C5. An issue keeps \<open>0 \<le> available_copies \<le> total_copies\<close> for every book. A return
  adds one to \<^verbatim>\<open>available_copies\<close> without looking at \<^verbatim>\<open>total_copies\<close>, so it
  keeps the bound from the databases whose counters agree with the loans: if
  \<open>0 \<le> available_copies\<close> and \<open>available_copies + open loans \<le> total_copies\<close> hold for
  every book, they hold again after every issue and every return, and so does
  \<open>0 \<le> available_copies \<le> total_copies\<close>.
\<close>

theorem C5_copies_invariant:
  "(book_inv d \<longrightarrow> book_inv (snd (create_borrowing today u key rq d)))
   \<and> (ledger_inv d \<longrightarrow>
         book_inv d
         \<and> ledger_inv (snd (create_borrowing today u key rq d))
         \<and> ledger_inv (snd (return_book rday pkey brid rd d))
         \<and> book_inv (snd (return_book rday pkey brid rd d)))"
  using create_borrowing_book_inv create_borrowing_ledger_inv return_book_ledger_inv
    ledger_inv_book_inv by blast

theorem C5_copies_invariant_witness:
  "book_inv db1 \<and> ledger_inv db1
   \<and> book_inv (snd (create_borrowing 100 9 2 issue1 db1))
   \<and> ledger_inv (snd (create_borrowing 100 9 2 issue1 db1))
   \<and> ledger_inv (snd (return_book 120 1 1 \<lparr>br_notes = None\<rparr> db1))
   \<and> book_inv (snd (return_book 120 1 1 \<lparr>br_notes = None\<rparr> db1))"
proof -
  have h: "ledger_inv db1"
    by (simp add: ledger_inv_def db1_def loan1_def open_loans_of_book_def open_loan_def)
  have h': "book_inv db1"
    by (simp add: book_inv_def db1_def)
  from h h' C5_copies_invariant [where d = db1 and today = 100 and u = 9
      and key = 2 and rq = issue1 and rday = 120 and pkey = 1 and brid = 1
      and rd = "\<lparr>br_notes = None\<rparr>"]
  show ?thesis by simp
qed

text \<open>
  The bound alone is not kept by a return: with one copy owned, one on the shelf and one
  open loan, the return leaves two copies available out of one.
\<close>

theorem C5_return_overfills_counterexample:
  "book_inv db_full \<and> \<not> book_inv (snd (return_book 110 1 1 \<lparr>br_notes = None\<rparr> db_full))"
proof
  show "book_inv db_full"
    by (simp add: book_inv_def db_full_def)
  have "books (snd (return_book 110 1 1 \<lparr>br_notes = None\<rparr> db_full)) 10
          = Some \<lparr>total_copies = 1, available_copies = 2, book_is_active = True\<rparr>"
    by (simp add: return_book_def db_full_def loan1_def truthy_def Let_def)
  then have "book_inv (snd (return_book 110 1 1 \<lparr>br_notes = None\<rparr> db_full)) \<Longrightarrow>
     available_copies \<lparr>total_copies = 1, available_copies = 2, book_is_active = True\<rparr>
       \<le> total_copies \<lparr>total_copies = 1, available_copies = 2, book_is_active = True\<rparr>"
    unfolding book_inv_def by blast
  then show "\<not> book_inv (snd (return_book 110 1 1 \<lparr>br_notes = None\<rparr> db_full))"
    by auto
qed

lemma unpaid_sum_total:
  "unpaid_sum d mid =
     sum_list (map amount (filter (\<lambda>p. p_member_id p = mid \<and> p_status p = Unpaid) (penalties d)))"
  by (simp add: unpaid_sum_def sql_sum_def py_or_def)

text \<open>
  C7. Whenever an issue is rejected, the database is left as it was: no loan is created
  and no counter of a book or member changes. This holds for a book without available
  copies, and for a member whose unpaid penalties sum to a positive amount; the message
  of that last rejection cites the total unpaid amount in so'm.
\<close>

theorem C7_rejected_issue_changes_nothing:
  "(\<forall>e. fst (create_borrowing today u key rq d) = Inl e \<longrightarrow>
        snd (create_borrowing today u key rq d) = d)
   \<and> (\<forall>bk. books d (bc_book_id rq) = Some bk \<and> available_copies bk = 0 \<longrightarrow>
        create_borrowing today u key rq d
          = (Inl (HTTPException Conflict [Lit ''Bu kitobning mavjud nusxalari yo'q'']), d))
   \<and> (\<forall>bk m. books d (bc_book_id rq) = Some bk \<and> 0 < available_copies bk
          \<and> members d (bc_member_id rq) = Some m \<and> member_is_active m
          \<and> 0 < unpaid_sum d (bc_member_id rq) \<longrightarrow>
        create_borrowing today u key rq d
          = (Inl (HTTPException Conflict
               [Lit ''A'zoning '', Val (unpaid_sum d (bc_member_id rq)),
                Lit '' so'm to'lanmagan jarimasi bor'']), d)
        \<and> cites (HTTPException Conflict
               [Lit ''A'zoning '', Val (unpaid_sum d (bc_member_id rq)),
                Lit '' so'm to'lanmagan jarimasi bor'']) (unpaid_sum d (bc_member_id rq)))
   \<and> unpaid_sum d (bc_member_id rq) =
        sum_list (map amount
          (filter (\<lambda>p. p_member_id p = bc_member_id rq \<and> p_status p = Unpaid) (penalties d)))"
proof (intro conjI allI impI)
  fix e assume "fst (create_borrowing today u key rq d) = Inl e"
  then show "snd (create_borrowing today u key rq d) = d"
    by (rule create_borrowing_Inl_unchanged)
next
  fix bk assume "books d (bc_book_id rq) = Some bk \<and> available_copies bk = 0"
  then show "create_borrowing today u key rq d
          = (Inl (HTTPException Conflict [Lit ''Bu kitobning mavjud nusxalari yo'q'']), d)"
    by (simp add: create_borrowing_def Conflict_def)
next
  fix bk m
  assume h: "books d (bc_book_id rq) = Some bk \<and> 0 < available_copies bk
          \<and> members d (bc_member_id rq) = Some m \<and> member_is_active m
          \<and> 0 < unpaid_sum d (bc_member_id rq)"
  then show "create_borrowing today u key rq d
          = (Inl (HTTPException Conflict
               [Lit ''A'zoning '', Val (unpaid_sum d (bc_member_id rq)),
                Lit '' so'm to'lanmagan jarimasi bor'']), d)"
    by (simp add: create_borrowing_def Conflict_def Let_def)
  show "cites (HTTPException Conflict
               [Lit ''A'zoning '', Val (unpaid_sum d (bc_member_id rq)),
                Lit '' so'm to'lanmagan jarimasi bor'']) (unpaid_sum d (bc_member_id rq))"
    by (simp add: cites_def)
next
  show "unpaid_sum d (bc_member_id rq) =
        sum_list (map amount
          (filter (\<lambda>p. p_member_id p = bc_member_id rq \<and> p_status p = Unpaid) (penalties d)))"
    by (rule unpaid_sum_total)
qed

theorem C7_rejected_issue_changes_nothing_witness:
  "create_borrowing 100 9 2 issue1 db_debt
     = (Inl (HTTPException Conflict [Lit ''A'zoning '', Val 10000, Lit '' so'm to'lanmagan jarimasi bor'']), db_debt)
   \<and> snd (create_borrowing 100 9 2 issue1 db_debt) = db_debt
   \<and> create_borrowing 100 9 2 issue1
        (db1\<lparr>books := [10 \<mapsto> \<lparr>total_copies = 1, available_copies = 0, book_is_active = True\<rparr>]\<rparr>)
     = (Inl (HTTPException Conflict [Lit ''Bu kitobning mavjud nusxalari yo'q'']),
        db1\<lparr>books := [10 \<mapsto> \<lparr>total_copies = 1, available_copies = 0, book_is_active = True\<rparr>]\<rparr>)"
proof -
  note t = C7_rejected_issue_changes_nothing [where today = 100 and u = 9 and key = 2
      and rq = issue1 and d = db_debt]
  note t0 = C7_rejected_issue_changes_nothing [where today = 100 and u = 9 and key = 2
      and rq = issue1
      and d = "db1\<lparr>books := [10 \<mapsto> \<lparr>total_copies = 1, available_copies = 0, book_is_active = True\<rparr>]\<rparr>"]
  have s: "unpaid_sum db_debt 1 = 10000"
    by (simp add: unpaid_sum_total db_debt_def fine_def)
  have b: "books db_debt (bc_book_id issue1) = Some \<lparr>total_copies = 3, available_copies = 2, book_is_active = True\<rparr>"
    and m: "members db_debt (bc_member_id issue1) = Some \<lparr>member_is_active = True, current_borrowed = 1, total_borrowed = 1\<rparr>"
    and i: "bc_member_id issue1 = 1"
    by (simp_all add: db_debt_def db1_def issue1_def)
  from t s b m i have a: "create_borrowing 100 9 2 issue1 db_debt
     = (Inl (HTTPException Conflict [Lit ''A'zoning '', Val 10000, Lit '' so'm to'lanmagan jarimasi bor'']), db_debt)"
    by simp
  then have a': "snd (create_borrowing 100 9 2 issue1 db_debt) = db_debt" by simp
  have b0: "books (db1\<lparr>books := [10 \<mapsto> \<lparr>total_copies = 1, available_copies = 0, book_is_active = True\<rparr>]\<rparr>) (bc_book_id issue1)
      = Some \<lparr>total_copies = 1, available_copies = 0, book_is_active = True\<rparr>"
    by (simp add: issue1_def)
  from t0 b0 have c: "create_borrowing 100 9 2 issue1
        (db1\<lparr>books := [10 \<mapsto> \<lparr>total_copies = 1, available_copies = 0, book_is_active = True\<rparr>]\<rparr>)
     = (Inl (HTTPException Conflict [Lit ''Bu kitobning mavjud nusxalari yo'q'']),
        db1\<lparr>books := [10 \<mapsto> \<lparr>total_copies = 1, available_copies = 0, book_is_active = True\<rparr>]\<rparr>)"
    by simp
  from a a' c show ?thesis by simp
qed

text \<open>
  The message does not cite the number of unpaid penalties: with two unpaid penalties of
  5000 so'm it cites 10000.
\<close>

theorem C7_reason_cites_sum_counterexample:
  "fst (create_borrowing 100 9 2 issue1 db_debt)
     = Inl (HTTPException 400 [Lit ''A'zoning '', Val 10000, Lit '' so'm to'lanmagan jarimasi bor''])
   \<and> unpaid_count db_debt 1 = 2
   \<and> \<not> cites (HTTPException 400 [Lit ''A'zoning '', Val 10000, Lit '' so'm to'lanmagan jarimasi bor''])
          (int (unpaid_count db_debt 1))"
  by (simp add: create_borrowing_def db_debt_def db1_def issue1_def fine_def unpaid_sum_total
      unpaid_count_def cites_def Let_def)

lemma date_add_days_Inl: "date_add_days t n = Inl e \<Longrightarrow> e = OverflowError"
  by (simp add: date_add_days_def split: if_splits)

lemma create_borrowing_http_days:
  assumes "fst (create_borrowing today u key rq d) = Inl (HTTPException c dt)"
  shows "fst (create_borrowing today u key (rq\<lparr>bc_days := n\<rparr>) d) = Inl (HTTPException c dt)"
proof (cases "date_add_days today (bc_days rq)")
  case (Inl e)
  then have "e = OverflowError" by (rule date_add_days_Inl)
  with Inl assms show ?thesis
    by (auto simp: create_borrowing_def Let_def split: option.splits if_splits)
next
  case (Inr due)
  with assms show ?thesis
    by (auto simp: create_borrowing_def Let_def split: option.splits if_splits)
qed

lemma create_borrowing_other_days:
  assumes "create_borrowing today u key rq d = (Inr r, d')"
    and "date_add_days today n = Inr due"
  shows "fst (create_borrowing today u key (rq\<lparr>bc_days := n\<rparr>) d) =
           Inr (new_Borrowing key today (bc_member_id rq) (bc_book_id rq) u due (bc_notes rq))"
proof -
  from assms(1) obtain bk m where "books d (bc_book_id rq) = Some bk" "0 < available_copies bk"
    "members d (bc_member_id rq) = Some m" "member_is_active m"
    "unpaid_sum d (bc_member_id rq) \<le> 0"
    by (rule create_borrowing_Inr)
  with assms(2) show ?thesis
    using create_borrowing_ok [of d "rq\<lparr>bc_days := n\<rparr>" bk m today due u key] by simp
qed

text \<open>
  C9. An issue does not check the number of loan days. Whether it raises one of its
  HTTP errors does not depend on that number. Whenever it accepts a request with some
  number of loan days, it accepts the same request with any other number \<open>n\<close>, positive
  or not, for which \<open>today + n\<close> is a date, and an accepted issue with \<open>n\<close> loan days
  appends a loan in status \<^verbatim>\<open>borrowed\<close> that is due on \<open>today + n\<close>.
\<close>

theorem C9_issue_ignores_loan_days:
  "(\<forall>c dt. fst (create_borrowing today u key (rq\<lparr>bc_days := n\<rparr>) d) = Inl (HTTPException c dt)
        \<longleftrightarrow> fst (create_borrowing today u key (rq\<lparr>bc_days := n'\<rparr>) d) = Inl (HTTPException c dt))
   \<and> (\<forall>r d' due. create_borrowing today u key (rq\<lparr>bc_days := n'\<rparr>) d = (Inr r, d')
          \<and> date_add_days today n = Inr due \<longrightarrow>
         (\<exists>r'. fst (create_borrowing today u key (rq\<lparr>bc_days := n\<rparr>) d) = Inr r'))
   \<and> (\<forall>r d'. create_borrowing today u key (rq\<lparr>bc_days := n\<rparr>) d = (Inr r, d') \<longrightarrow>
         due_date r = today + n \<and> b_status r = Borrowed \<and> borrowings d' = borrowings d @ [r])"
proof (intro conjI allI impI)
  fix c dt
  show "fst (create_borrowing today u key (rq\<lparr>bc_days := n\<rparr>) d) = Inl (HTTPException c dt)
        \<longleftrightarrow> fst (create_borrowing today u key (rq\<lparr>bc_days := n'\<rparr>) d) = Inl (HTTPException c dt)"
    using create_borrowing_http_days [of today u key "rq\<lparr>bc_days := n\<rparr>" d c dt n']
      create_borrowing_http_days [of today u key "rq\<lparr>bc_days := n'\<rparr>" d c dt n]
    by auto
next
  fix r d' due
  assume "create_borrowing today u key (rq\<lparr>bc_days := n'\<rparr>) d = (Inr r, d')
          \<and> date_add_days today n = Inr due"
  then show "\<exists>r'. fst (create_borrowing today u key (rq\<lparr>bc_days := n\<rparr>) d) = Inr r'"
    using create_borrowing_other_days [of today u key "rq\<lparr>bc_days := n'\<rparr>" d r d' n due]
    by auto
next
  fix r d' assume eq: "create_borrowing today u key (rq\<lparr>bc_days := n\<rparr>) d = (Inr r, d')"
  then obtain
    r: "r = new_Borrowing key today (bc_member_id (rq\<lparr>bc_days := n\<rparr>)) (bc_book_id (rq\<lparr>bc_days := n\<rparr>)) u
              (today + bc_days (rq\<lparr>bc_days := n\<rparr>)) (bc_notes (rq\<lparr>bc_days := n\<rparr>))"
    and bs: "borrowings d' = borrowings d @ [r]"
    by (rule create_borrowing_Inr)
  from r show "due_date r = today + n" by (simp add: new_Borrowing_def)
  from r show "b_status r = Borrowed" by (simp add: new_Borrowing_def)
  from bs show "borrowings d' = borrowings d @ [r]" .
qed

theorem C9_issue_ignores_loan_days_witness:
  "fst (create_borrowing 100 9 2 (issue1\<lparr>bc_days := - 3\<rparr>) db1) = Inr (new_Borrowing 2 100 1 10 9 97 None)
   \<and> due_date (new_Borrowing 2 100 1 10 9 97 None) = 100 + (- 3)
   \<and> borrowings (snd (create_borrowing 100 9 2 (issue1\<lparr>bc_days := - 3\<rparr>) db1))
        = borrowings db1 @ [new_Borrowing 2 100 1 10 9 97 None]"
proof -
  have a: "fst (create_borrowing 100 9 2 (issue1\<lparr>bc_days := - 3\<rparr>) db1) = Inr (new_Borrowing 2 100 1 10 9 97 None)"
    by (simp add: create_borrowing_def db1_def issue1_def unpaid_sum_def sql_sum_def py_or_def
        date_add_days_def Let_def)
  then have eq: "create_borrowing 100 9 2 (issue1\<lparr>bc_days := - 3\<rparr>) db1
      = (Inr (new_Borrowing 2 100 1 10 9 97 None), snd (create_borrowing 100 9 2 (issue1\<lparr>bc_days := - 3\<rparr>) db1))"
    by (simp add: prod_eq_iff)
  from C9_issue_ignores_loan_days [where today = 100 and u = 9 and key = 2 and rq = issue1
      and n = "- 3" and d = db1] eq
  have "due_date (new_Borrowing 2 100 1 10 9 97 None) = 100 + (- 3)
     \<and> borrowings (snd (create_borrowing 100 9 2 (issue1\<lparr>bc_days := - 3\<rparr>) db1))
        = borrowings db1 @ [new_Borrowing 2 100 1 10 9 97 None]"
    by blast
  with a show ?thesis by simp
qed

text \<open>
  So an issue with a non-positive number of loan days raises nothing: with \<open>- 3\<close> days
  the loan is created, due three days before it was issued.
\<close>

theorem C9_nonpositive_days_accepted_counterexample:
  "create_borrowing 100 9 2 (issue1\<lparr>bc_days := - 3\<rparr>) db1
     = (Inr (new_Borrowing 2 100 1 10 9 97 None),
        db1\<lparr>borrowings := [loan1, new_Borrowing 2 100 1 10 9 97 None],
            books := [10 \<mapsto> \<lparr>total_copies = 3, available_copies = 1, book_is_active = True\<rparr>],
            members := [1 \<mapsto> \<lparr>member_is_active = True, current_borrowed = 2, total_borrowed = 2\<rparr>]\<rparr>)
   \<and> fst (create_borrowing 100 9 2 (issue1\<lparr>bc_days := 0\<rparr>) db1)
     = Inr (new_Borrowing 2 100 1 10 9 100 None)"
  by (simp add: create_borrowing_def db1_def issue1_def unpaid_sum_def sql_sum_def py_or_def date_add_days_def Let_def)

text \<open>
  C1. An issue should succeed exactly when the eligibility check allows the pair. The
  route does not call \<^verbatim>\<open>can_borrow_book\<close> and repeats only some of its rules: for a
  member who already holds five books, and for a book that is not active, the check
  says no and the issue succeeds.
\<close>

theorem C1_issue_skips_cap_and_active_check:
  "can_borrow_book db_cap 1 10
     = (False, Some [Lit ''A'zo maksimal '', Val 5, Lit '' ta kitobgacha ola oladi''])
   \<and> fst (create_borrowing 100 9 6 issue1 db_cap) = Inr (new_Borrowing 6 100 1 10 9 114 None)
   \<and> map_option current_borrowed (members (snd (create_borrowing 100 9 6 issue1 db_cap)) 1) = Some 6
   \<and> can_borrow_book db_cap 2 11 = (False, Some [Lit ''Kitob faol emas''])
   \<and> fst (create_borrowing 100 9 6 issue2 db_cap) = Inr (new_Borrowing 6 100 2 11 9 114 None)"
  by (simp add: can_borrow_book_def create_borrowing_def db_cap_def issue1_def issue2_def
      unpaid_sum_def unpaid_count_def sql_sum_def py_or_def MAX_CONCURRENT_BOOKS_def
      date_add_days_def Let_def)

lemma unpaid_count_open_penalty_count: "int (unpaid_count d mid) = open_penalty_count d mid"
proof -
  have "int (length (filter P xs)) = (\<Sum>x\<leftarrow>xs. if P x then 1 else 0)" for P :: "Penalty \<Rightarrow> bool" and xs
    by (induction xs) simp_all
  then show ?thesis
    by (simp add: unpaid_count_def open_penalty_count_def)
qed

lemma open_penalty_count_nonneg: "0 \<le> open_penalty_count d mid"
  unfolding unpaid_count_open_penalty_count [symmetric] by simp


lemma can_borrow_book_snapshots:
  assumes "members d' mid' = members d mid" and "books d' bid' = books d bid"
    and "open_penalty_count d' mid' = open_penalty_count d mid"
  shows "can_borrow_book d' mid' bid' = can_borrow_book d mid bid"
  using assms
  by (cases "members d mid"; cases "books d bid")
    (simp_all add: can_borrow_book_def unpaid_count_open_penalty_count)

text \<open>
  C8. \<^verbatim>\<open>can_borrow_book\<close> only reads the database, and its answer is a function of
  three snapshots: the member row, the book row and the member's open penalty count. It
  decides by four rules in order, the first failure giving the answer: the member exists
  and is active, else a message that the member is missing or inactive; the book exists,
  is active and has a copy available, else a message that it is missing, inactive or
  unavailable; the member has zero unpaid penalties, else a message with their number;
  the member holds fewer than five books, else a message with the cap. It answers
  \<open>(True, None)\<close> exactly when all four rules pass.
\<close>

theorem C8_can_borrow_rules_in_order:
  "(\<not> rule_member d mid \<longrightarrow>
      can_borrow_book d mid bid \<in>
        {(False, Some [Lit ''A'zo topilmadi'']), (False, Some [Lit ''A'zo faol emas''])})
   \<and> (rule_member d mid \<and> \<not> rule_book d bid \<longrightarrow>
      can_borrow_book d mid bid \<in>
        {(False, Some [Lit ''Kitob topilmadi'']), (False, Some [Lit ''Kitob faol emas'']),
         (False, Some [Lit ''Kitob mavjud emas''])})
   \<and> (rule_member d mid \<and> rule_book d bid \<and> \<not> rule_penalties d mid \<longrightarrow>
      can_borrow_book d mid bid =
        (False, Some [Lit ''A'zoning '', Val (open_penalty_count d mid),
                      Lit '' ta to'lanmagan jarimasi bor'']))
   \<and> (rule_member d mid \<and> rule_book d bid \<and> rule_penalties d mid \<and> \<not> rule_cap d mid \<longrightarrow>
      can_borrow_book d mid bid =
        (False, Some [Lit ''A'zo maksimal '', Val 5, Lit '' ta kitobgacha ola oladi'']))
   \<and> (can_borrow_book d mid bid = (True, None) \<longleftrightarrow>
        rule_member d mid \<and> rule_book d bid \<and> rule_penalties d mid \<and> rule_cap d mid)
   \<and> (\<forall>d' mid' bid'. members d' mid' = members d mid \<and> books d' bid' = books d bid
          \<and> open_penalty_count d' mid' = open_penalty_count d mid \<longrightarrow>
        can_borrow_book d' mid' bid' = can_borrow_book d mid bid)"
proof -
  have snap: "\<forall>d' mid' bid'. members d' mid' = members d mid \<and> books d' bid' = books d bid
          \<and> open_penalty_count d' mid' = open_penalty_count d mid \<longrightarrow>
        can_borrow_book d' mid' bid' = can_borrow_book d mid bid"
  proof (intro allI impI)
    fix d' mid' bid'
    assume h: "members d' mid' = members d mid \<and> books d' bid' = books d bid
          \<and> open_penalty_count d' mid' = open_penalty_count d mid"
    from h have a: "members d' mid' = members d mid" by (rule conjunct1)
    from h have b: "books d' bid' = books d bid" by (rule conjunct1 [OF conjunct2])
    from h have c: "open_penalty_count d' mid' = open_penalty_count d mid"
      by (rule conjunct2 [OF conjunct2])
    from a b c show "can_borrow_book d' mid' bid' = can_borrow_book d mid bid"
      by (rule can_borrow_book_snapshots)
  qed
  have rules: "(\<not> rule_member d mid \<longrightarrow>
      can_borrow_book d mid bid \<in>
        {(False, Some [Lit ''A'zo topilmadi'']), (False, Some [Lit ''A'zo faol emas''])})
   \<and> (rule_member d mid \<and> \<not> rule_book d bid \<longrightarrow>
      can_borrow_book d mid bid \<in>
        {(False, Some [Lit ''Kitob topilmadi'']), (False, Some [Lit ''Kitob faol emas'']),
         (False, Some [Lit ''Kitob mavjud emas''])})
   \<and> (rule_member d mid \<and> rule_book d bid \<and> \<not> rule_penalties d mid \<longrightarrow>
      can_borrow_book d mid bid =
        (False, Some [Lit ''A'zoning '', Val (open_penalty_count d mid),
                      Lit '' ta to'lanmagan jarimasi bor'']))
   \<and> (rule_member d mid \<and> rule_book d bid \<and> rule_penalties d mid \<and> \<not> rule_cap d mid \<longrightarrow>
      can_borrow_book d mid bid =
        (False, Some [Lit ''A'zo maksimal '', Val 5, Lit '' ta kitobgacha ola oladi'']))
   \<and> (can_borrow_book d mid bid = (True, None) \<longleftrightarrow>
        rule_member d mid \<and> rule_book d bid \<and> rule_penalties d mid \<and> rule_cap d mid)"
  proof (cases "members d mid")
    case None
    then show ?thesis
      by (simp add: can_borrow_book_def rule_member_def rule_cap_def)
  next
    case (Some m)
    note mm = this
    show ?thesis
    proof (cases "books d bid")
      case None
      with mm show ?thesis
        by (simp add: can_borrow_book_def rule_member_def rule_book_def)
    next
      case (Some b)
      with mm open_penalty_count_nonneg [of d mid] show ?thesis
        by (simp add: can_borrow_book_def rule_member_def rule_book_def rule_penalties_def
            rule_cap_def MAX_CONCURRENT_BOOKS_def Let_def unpaid_count_open_penalty_count)
    qed
  qed
  show ?thesis
    apply (insert rules snap)
    apply (elim conjE)
    apply (intro conjI)
         apply assumption+
    done
qed

theorem C8_can_borrow_rules_in_order_witness:
  "can_borrow_book db1 7 10 \<in>
        {(False, Some [Lit ''A'zo topilmadi'']), (False, Some [Lit ''A'zo faol emas''])}
   \<and> can_borrow_book db_cap 2 11 \<in>
        {(False, Some [Lit ''Kitob topilmadi'']), (False, Some [Lit ''Kitob faol emas'']),
         (False, Some [Lit ''Kitob mavjud emas''])}
   \<and> can_borrow_book db_debt 1 10 =
        (False, Some [Lit ''A'zoning '', Val 2, Lit '' ta to'lanmagan jarimasi bor''])
   \<and> can_borrow_book db_cap 1 10 =
        (False, Some [Lit ''A'zo maksimal '', Val 5, Lit '' ta kitobgacha ola oladi''])
   \<and> can_borrow_book db1 1 10 = (True, None)
   \<and> can_borrow_book (db1\<lparr>borrowings := []\<rparr>) 1 10 = can_borrow_book db1 1 10"
proof -
  have r1: "\<not> rule_member db1 7"
    by (simp add: rule_member_def db1_def)
  have r2: "rule_member db_cap 2 \<and> \<not> rule_book db_cap 11"
    by (simp add: rule_member_def rule_book_def db_cap_def)
  have r3: "rule_member db_debt 1 \<and> rule_book db_debt 10 \<and> \<not> rule_penalties db_debt 1"
    and c3: "open_penalty_count db_debt 1 = 2"
    by (simp_all add: rule_member_def rule_book_def rule_penalties_def open_penalty_count_def
        db_debt_def db1_def fine_def)
  have r4: "rule_member db_cap 1 \<and> rule_book db_cap 10 \<and> rule_penalties db_cap 1 \<and> \<not> rule_cap db_cap 1"
    by (simp add: rule_member_def rule_book_def rule_penalties_def rule_cap_def
        open_penalty_count_def db_cap_def)
  have r5: "rule_member db1 1 \<and> rule_book db1 10 \<and> rule_penalties db1 1 \<and> rule_cap db1 1"
    by (simp add: rule_member_def rule_book_def rule_penalties_def rule_cap_def
        open_penalty_count_def db1_def)
  from C8_can_borrow_rules_in_order [of db1 7 10, THEN conjunct1] r1
  have a: "can_borrow_book db1 7 10 \<in>
        {(False, Some [Lit ''A'zo topilmadi'']), (False, Some [Lit ''A'zo faol emas''])}"
    by (rule mp)
  from C8_can_borrow_rules_in_order [of db_cap 2 11, THEN conjunct2, THEN conjunct1] r2
  have b: "can_borrow_book db_cap 2 11 \<in>
        {(False, Some [Lit ''Kitob topilmadi'']), (False, Some [Lit ''Kitob faol emas'']),
         (False, Some [Lit ''Kitob mavjud emas''])}"
    by (rule mp)
  from C8_can_borrow_rules_in_order [of db_debt 1 10, THEN conjunct2, THEN conjunct2,
      THEN conjunct1] r3
  have "can_borrow_book db_debt 1 10 =
        (False, Some [Lit ''A'zoning '', Val (open_penalty_count db_debt 1), Lit '' ta to'lanmagan jarimasi bor''])"
    by (rule mp)
  then have c: "can_borrow_book db_debt 1 10 =
        (False, Some [Lit ''A'zoning '', Val 2, Lit '' ta to'lanmagan jarimasi bor''])"
    by (simp only: c3)
  from C8_can_borrow_rules_in_order [of db_cap 1 10, THEN conjunct2, THEN conjunct2,
      THEN conjunct2, THEN conjunct1] r4
  have d: "can_borrow_book db_cap 1 10 =
        (False, Some [Lit ''A'zo maksimal '', Val 5, Lit '' ta kitobgacha ola oladi''])"
    by (rule mp)
  from C8_can_borrow_rules_in_order [of db1 1 10, THEN conjunct2, THEN conjunct2,
      THEN conjunct2, THEN conjunct2, THEN conjunct1] r5
  have e: "can_borrow_book db1 1 10 = (True, None)"
    by (rule iffD2)
  have h6: "members (db1\<lparr>borrowings := []\<rparr>) 1 = members db1 1
      \<and> books (db1\<lparr>borrowings := []\<rparr>) 10 = books db1 10
      \<and> open_penalty_count (db1\<lparr>borrowings := []\<rparr>) 1 = open_penalty_count db1 1"
    by (simp add: open_penalty_count_def)
  from C8_can_borrow_rules_in_order [of db1 1 10, THEN conjunct2, THEN conjunct2,
      THEN conjunct2, THEN conjunct2, THEN conjunct2, THEN spec, THEN spec, THEN spec] h6
  have f: "can_borrow_book (db1\<lparr>borrowings := []\<rparr>) 1 10 = can_borrow_book db1 1 10"
    by (rule mp)
  from a b c d e f show ?thesis by (intro conjI)
qed

text \<open>
  In the other direction the two agree: what the check allows, the issue accepts, as
  long as the due date is a date.
\<close>

lemma eligible_issue_succeeds:
  assumes "can_borrow_book d (bc_member_id rq) (bc_book_id rq) = (True, None)"
    and "date_add_days today (bc_days rq) = Inr due"
  shows "fst (create_borrowing today u key rq d) =
           Inr (new_Borrowing key today (bc_member_id rq) (bc_book_id rq) u due (bc_notes rq))"
proof -
  from assms(1) obtain m b where "members d (bc_member_id rq) = Some m" "member_is_active m"
    "books d (bc_book_id rq) = Some b" "0 < available_copies b"
    "unpaid_count d (bc_member_id rq) = 0"
    by (auto simp: can_borrow_book_def Let_def split: option.splits if_splits)
  moreover from this have "unpaid_sum d (bc_member_id rq) \<le> 0"
    by (simp add: unpaid_sum_total unpaid_count_def)
  ultimately show ?thesis
    using assms(2) by (simp add: create_borrowing_ok)
qed

lemma pay_penalty_ok:
  assumes "find (\<lambda>p. penalty_id p = pid) (penalties d) = Some p" and "p_status p \<noteq> Paid"
  shows "pay_penalty today pid payment d =
           (Inr (p\<lparr>p_status := Paid, paid_date := Some today,
                   paid_amount := Some (py_or (pu_paid_amount payment) (amount p)),
                   p_notes := (if truthy (pu_notes payment) then pu_notes payment else p_notes p)\<rparr>),
            d\<lparr>penalties := update_first (\<lambda>p. penalty_id p = pid)
                 (\<lambda>x. p\<lparr>p_status := Paid, paid_date := Some today,
                   paid_amount := Some (py_or (pu_paid_amount payment) (amount p)),
                   p_notes := (if truthy (pu_notes payment) then pu_notes payment else p_notes p)\<rparr>)
                 (penalties d)\<rparr>)"
  using assms by (simp add: pay_penalty_def Let_def)

text \<open>
  What paying changes: the status (to \<^verbatim>\<open>paid\<close>), the \<^verbatim>\<open>paid_date\<close>, the
  \<^verbatim>\<open>paid_amount\<close> and, when notes other than the empty string are sent, the notes. The
  amount and every other field stay as they were, the row stays in its place, and no
  other table changes.
\<close>

lemma pay_penalty_frame:
  assumes "find (\<lambda>p. penalty_id p = pid) (penalties d) = Some p" and "p_status p \<noteq> Paid"
  shows "\<exists>q d'. pay_penalty today pid payment d = (Inr q, d')
     \<and> p_status q = Paid \<and> paid_date q = Some today
     \<and> paid_amount q = Some (case pu_paid_amount payment of
                                None \<Rightarrow> amount p
                              | Some v \<Rightarrow> if v = 0 then amount p else v)
     \<and> p_notes q = (case pu_notes payment of
                       None \<Rightarrow> p_notes p
                     | Some t \<Rightarrow> if t = [] then p_notes p else Some t)
     \<and> amount q = amount p \<and> penalty_id q = penalty_id p \<and> p_member_id q = p_member_id p
     \<and> p_borrow_id q = p_borrow_id p \<and> reason q = reason p \<and> issued_date q = issued_date p
     \<and> penalties d' = update_first (\<lambda>p. penalty_id p = pid) (\<lambda>x. q) (penalties d)
     \<and> find (\<lambda>p. penalty_id p = pid) (penalties d') = Some q
     \<and> length (penalties d') = length (penalties d)
     \<and> books d' = books d \<and> members d' = members d \<and> borrowings d' = borrowings d"
proof -
  define q where "q = p\<lparr>p_status := Paid, paid_date := Some today,
                   paid_amount := Some (py_or (pu_paid_amount payment) (amount p)),
                   p_notes := (if truthy (pu_notes payment) then pu_notes payment else p_notes p)\<rparr>"
  define d' where "d' = d\<lparr>penalties := update_first (\<lambda>p. penalty_id p = pid) (\<lambda>x. q) (penalties d)\<rparr>"
  have eq: "pay_penalty today pid payment d = (Inr q, d')"
    unfolding q_def d'_def using assms by (rule pay_penalty_ok)
  have id: "penalty_id p = pid" using assms(1) by (rule find_Some_holds)
  then have "penalty_id q = pid" by (simp add: q_def)
  with assms(1) have f: "find (\<lambda>p. penalty_id p = pid) (penalties d') = Some q"
    by (simp add: d'_def find_update_first)
  have pa: "paid_amount q = Some (case pu_paid_amount payment of
                                None \<Rightarrow> amount p
                              | Some v \<Rightarrow> if v = 0 then amount p else v)"
    by (simp add: q_def py_or_def)
  have nt: "p_notes q = (case pu_notes payment of
                       None \<Rightarrow> p_notes p
                     | Some t \<Rightarrow> if t = [] then p_notes p else Some t)"
    by (simp add: q_def truthy_def split: option.splits)
  have fields: "p_status q = Paid" "paid_date q = Some today"
    "amount q = amount p" "penalty_id q = penalty_id p" "p_member_id q = p_member_id p"
    "p_borrow_id q = p_borrow_id p" "reason q = reason p" "issued_date q = issued_date p"
    by (simp_all add: q_def)
  have frame: "penalties d' = update_first (\<lambda>p. penalty_id p = pid) (\<lambda>x. q) (penalties d)"
    "length (penalties d') = length (penalties d)"
    "books d' = books d" "members d' = members d" "borrowings d' = borrowings d"
    by (simp_all add: d'_def length_update_first)
  from eq pa nt fields f frame show ?thesis by blast
qed

text \<open>
  C10. Paying a penalty should record as \<^verbatim>\<open>paid_amount\<close> the value the caller sends,
  and the amount of the penalty when none is sent. The route writes
  \<^verbatim>\<open>payment.paid_amount or penalty.amount\<close>, and zero is falsy: for the penalty of 5000
  so'm a sent value of 4000 is recorded as 4000, but a sent value of 0 is recorded as
  5000, as if nothing had been sent.
\<close>

theorem C10_zero_override_recorded_as_amount:
  "pay_penalty 120 1 \<lparr>pu_paid_amount = Some 0, pu_notes = None\<rparr> db_debt
     = (Inr ((fine 1)\<lparr>p_status := Paid, paid_date := Some 120, paid_amount := Some 5000\<rparr>),
        db_debt\<lparr>penalties :=
          [(fine 1)\<lparr>p_status := Paid, paid_date := Some 120, paid_amount := Some 5000\<rparr>, fine 2]\<rparr>)
   \<and> paid_amount ((fine 1)\<lparr>p_status := Paid, paid_date := Some 120, paid_amount := Some 5000\<rparr>)
       \<noteq> pu_paid_amount \<lparr>pu_paid_amount = Some 0, pu_notes = None\<rparr>
   \<and> fst (pay_penalty 120 1 \<lparr>pu_paid_amount = Some 4000, pu_notes = None\<rparr> db_debt)
     = Inr ((fine 1)\<lparr>p_status := Paid, paid_date := Some 120, paid_amount := Some 4000\<rparr>)
   \<and> fst (pay_penalty 120 1 \<lparr>pu_paid_amount = None, pu_notes = None\<rparr> db_debt)
     = Inr ((fine 1)\<lparr>p_status := Paid, paid_date := Some 120, paid_amount := Some 5000\<rparr>)"
  by (simp add: pay_penalty_def db_debt_def db1_def fine_def py_or_def truthy_def Let_def)

end
